theory Spec2Isabelle
  imports Complex_Main "HOL-Library.Multiset"
begin

section \<open>Event model (models/event.py)\<close>

text \<open>
  The enumeration \<open>EventType\<close> with its seventeen members, in the order of the source.
\<close>

datatype EventType =
    SESSION_START | SESSION_RESUME | SESSION_PAUSE | SESSION_END
  | VIEW_TRANSITION | NAVIGATION_BACK | NAVIGATION_FORWARD
  | ACTION_CLICK | ACTION_SUBMIT | ACTION_FOCUS | ACTION_INPUT
  | PERFORMANCE_LOAD | PERFORMANCE_LATENCY
  | FRICTION_RAPID_CLICK | FRICTION_NAVIGATION_REVERSAL | FRICTION_ERROR
  | FRICTION_FORM_ABANDONMENT

fun EventType_value :: "EventType \<Rightarrow> string" where
  "EventType_value SESSION_START = ''session.start''"
| "EventType_value SESSION_RESUME = ''session.resume''"
| "EventType_value SESSION_PAUSE = ''session.pause''"
| "EventType_value SESSION_END = ''session.end''"
| "EventType_value VIEW_TRANSITION = ''view.transition''"
| "EventType_value NAVIGATION_BACK = ''navigation.back''"
| "EventType_value NAVIGATION_FORWARD = ''navigation.forward''"
| "EventType_value ACTION_CLICK = ''action.click''"
| "EventType_value ACTION_SUBMIT = ''action.submit''"
| "EventType_value ACTION_FOCUS = ''action.focus''"
| "EventType_value ACTION_INPUT = ''action.input''"
| "EventType_value PERFORMANCE_LOAD = ''performance.load''"
| "EventType_value PERFORMANCE_LATENCY = ''performance.latency''"
| "EventType_value FRICTION_RAPID_CLICK = ''friction.rapid_click''"
| "EventType_value FRICTION_NAVIGATION_REVERSAL = ''friction.navigation_reversal''"
| "EventType_value FRICTION_ERROR = ''friction.error''"
| "EventType_value FRICTION_FORM_ABANDONMENT = ''friction.form_abandonment''"

text \<open>
  The values of the open \<open>data\<close> mapping (\<open>Dict[str, Any]\<close>). Numbers are Python ints and
  floats, both read as real numbers: the arithmetic of the classifier is true division and
  \<open>min\<close>, taken here over the reals. Booleans are numbers in Python (\<open>True == 1\<close>).
  Strings, \<open>None\<close> and containers (\<open>POther\<close>) are not: comparing them with a number or
  dividing them raises \<open>TypeError\<close>.
\<close>

datatype pyval = PNum real | PBool bool | PStr string | PNone | POther

datatype error = TypeError | AttributeError | ValueError | ValidationError | OtherError string

record DeviceInfo =
  device_type :: string
  touchEnabled :: bool

record Viewport =
  width :: int
  height :: int

record EventContext =
  url :: "string option"
  pageTitle :: "string option"
  viewport :: Viewport
  device :: DeviceInfo
  userAgent :: "string option"

text \<open>
  A timestamp is an instant; timezone-aware datetimes are totally ordered, and are read here
  as the integer number of microseconds since the epoch.
\<close>

record TelemetryEvent =
  schemaVersion :: string
  type :: EventType
  eventId :: string
  sessionId :: string
  timestamp :: int
  sequenceNumber :: int
  event_context :: EventContext
  data :: "string \<rightharpoonup> pyval"

section \<open>Session reconstruction (analysis/session\_reconstructor.py)\<close>

record ReconstructedSession =
  session_id :: string
  events :: "TelemetryEvent list"
  start_time :: int
  end_time :: "int option"

text \<open>
  \<open>ReconstructedSession.__init__\<close>. Python's \<open>sorted\<close> with a key is a stable sort, as is
  \<open>sort_key\<close>. The start and end times are read from the argument list \<open>events\<close>, not from
  the sorted \<open>self.events\<close>. The first argument stands for \<open>datetime.now()\<close>.
\<close>

definition ReconstructedSession_init ::
  "int \<Rightarrow> string \<Rightarrow> TelemetryEvent list \<Rightarrow> ReconstructedSession" where
  "ReconstructedSession_init now sid evs =
     \<lparr> session_id = sid,
       events = sort_key sequenceNumber evs,
       start_time = (case evs of [] \<Rightarrow> now | e # _ \<Rightarrow> timestamp e),
       end_time = (case evs of [] \<Rightarrow> None | _ # _ \<Rightarrow> Some (timestamp (last evs))) \<rparr>"

definition get_events_by_type :: "ReconstructedSession \<Rightarrow> EventType \<Rightarrow> TelemetryEvent list" where
  "get_events_by_type s t = filter (\<lambda>e. type e = t) (events s)"

definition get_page_views :: "ReconstructedSession \<Rightarrow> nat" where
  "get_page_views s = length (get_events_by_type s VIEW_TRANSITION)"

definition get_interactions :: "ReconstructedSession \<Rightarrow> nat" where
  "get_interactions s =
     sum_list (map (\<lambda>t. length (get_events_by_type s t)) [ACTION_CLICK, ACTION_SUBMIT, ACTION_INPUT])"

text \<open>
  The reconstructor's buffer is a Python dict from session id to the list of events in
  arrival order. A dict keeps its keys in insertion order, which \<open>get_all_sessions\<close>
  follows, so the buffer is an association list.
\<close>

record SessionReconstructor =
  sessions :: "(string \<times> TelemetryEvent list) list"

definition SessionReconstructor_init :: SessionReconstructor where
  "SessionReconstructor_init = \<lparr> sessions = [] \<rparr>"

definition add_event :: "SessionReconstructor \<Rightarrow> TelemetryEvent \<Rightarrow> SessionReconstructor" where
  "add_event r e =
     (let d = (if map_of (sessions r) (sessionId e) = None
               then sessions r @ [(sessionId e, [])] else sessions r)
      in r\<lparr> sessions := map (\<lambda>(k, v). if k = sessionId e then (k, v @ [e]) else (k, v)) d \<rparr>)"

fun add_events :: "SessionReconstructor \<Rightarrow> TelemetryEvent list \<Rightarrow> SessionReconstructor" where
  "add_events r [] = r"
| "add_events r (e # es) = add_events (add_event r e) es"

text \<open>
  The three queries are methods of the mutable reconstructor; each returns its result
  together with the reconstructor as the call leaves it.
\<close>

definition get_session ::
  "int \<Rightarrow> SessionReconstructor \<Rightarrow> string \<Rightarrow> ReconstructedSession \<times> SessionReconstructor" where
  "get_session now r sid =
     (let evs = (case map_of (sessions r) sid of None \<Rightarrow> [] | Some es \<Rightarrow> es)
      in (ReconstructedSession_init now sid evs, r))"

definition get_all_sessions ::
  "int \<Rightarrow> SessionReconstructor \<Rightarrow> ReconstructedSession list \<times> SessionReconstructor" where
  "get_all_sessions now r =
     (map (\<lambda>(sid, evs). ReconstructedSession_init now sid evs) (sessions r), r)"

definition get_session_count :: "SessionReconstructor \<Rightarrow> nat \<times> SessionReconstructor" where
  "get_session_count r = (length (sessions r), r)"

text \<open>Sample inputs: an event with a given type, id, session, time, sequence number and data.\<close>

definition sample_context :: EventContext where
  "sample_context =
     \<lparr> url = None, pageTitle = None,
       viewport = \<lparr> width = 1280, height = 720 \<rparr>,
       device = \<lparr> device_type = ''desktop'', touchEnabled = False \<rparr>,
       userAgent = None \<rparr>"

definition sample_event ::
  "EventType \<Rightarrow> string \<Rightarrow> string \<Rightarrow> int \<Rightarrow> int \<Rightarrow> (string \<times> pyval) list \<Rightarrow> TelemetryEvent" where
  "sample_event t eid sid ts sq kvs =
     \<lparr> schemaVersion = ''1.0'', type = t, eventId = eid, sessionId = sid, timestamp = ts,
       sequenceNumber = sq, event_context = sample_context, data = map_of kvs \<rparr>"

section \<open>Friction classification (analysis/friction\_classifier.py, models/session.py)\<close>

text \<open>
  The description of a pattern is an f-string of the source. It is kept as the template
  together with the values it interpolates, since the text of a formatted float is not
  modelled: \<open>SlowPageLoad v\<close> is \<open>f"Slow page load detected: {v}ms"\<close>,
  \<open>HighLatency op v\<close> is \<open>f"High latency for {op}: {v}ms"\<close>, and so on.
\<close>

datatype description =
    SlowPageLoad pyval
  | HighLatency pyval pyval
  | RapidClicking pyval
  | QuickReversal
  | FormAbandoned pyval pyval
  | ErrorEncountered pyval
  | MultipleReversals nat

record FrictionPattern =
  pattern_type :: string
  severity :: real
  timestamp_fp :: int
  description :: description
  event_id :: string

text \<open>\<open>event.data.get(key, default)\<close>.\<close>

definition data_get :: "TelemetryEvent \<Rightarrow> string \<Rightarrow> pyval \<Rightarrow> pyval" where
  "data_get e k d = (case data e k of None \<Rightarrow> d | Some v \<Rightarrow> v)"

text \<open>
  The operand of a comparison with a number or of a division: a number, or \<open>TypeError\<close>.
\<close>

fun as_number :: "pyval \<Rightarrow> error + real" where
  "as_number (PNum x) = Inr x"
| "as_number (PBool b) = Inr (if b then 1 else 0)"
| "as_number (PStr _) = Inl TypeError"
| "as_number PNone = Inl TypeError"
| "as_number POther = Inl TypeError"

text \<open>
  Each \<open>for\<close> loop of the detection rules is a recursive function over the events of the
  type in question; its second argument is the list \<open>patterns\<close> built so far. A raised
  exception leaves the loop at once.
\<close>

fun load_loop :: "TelemetryEvent list \<Rightarrow> FrictionPattern list \<Rightarrow> error + FrictionPattern list" where
  "load_loop [] patterns = Inr patterns"
| "load_loop (event # rest) patterns =
     (let load_time = data_get event ''loadTime'' (PNum 0)
      in case as_number load_time of
           Inl err \<Rightarrow> Inl err
         | Inr lt \<Rightarrow>
             if lt > 3000
             then load_loop rest (patterns @
                    [\<lparr> pattern_type = ''performance_degradation'',
                       severity = min 1 (lt / 10000),
                       timestamp_fp = timestamp event,
                       description = SlowPageLoad load_time,
                       event_id = eventId event \<rparr>])
             else load_loop rest patterns)"

fun latency_loop :: "TelemetryEvent list \<Rightarrow> FrictionPattern list \<Rightarrow> error + FrictionPattern list" where
  "latency_loop [] patterns = Inr patterns"
| "latency_loop (event # rest) patterns =
     (let latency = data_get event ''latency'' (PNum 0);
          operation = data_get event ''operation'' (PStr ''unknown'')
      in case as_number latency of
           Inl err \<Rightarrow> Inl err
         | Inr l \<Rightarrow>
             latency_loop rest (patterns @
               [\<lparr> pattern_type = ''performance_degradation'',
                  severity = min 1 (l / 5000),
                  timestamp_fp = timestamp event,
                  description = HighLatency operation latency,
                  event_id = eventId event \<rparr>]))"

definition detect_performance_degradation ::
  "ReconstructedSession \<Rightarrow> error + FrictionPattern list" where
  "detect_performance_degradation session =
     (case load_loop (get_events_by_type session PERFORMANCE_LOAD) [] of
        Inl err \<Rightarrow> Inl err
      | Inr patterns \<Rightarrow> latency_loop (get_events_by_type session PERFORMANCE_LATENCY) patterns)"

fun rapid_click_loop :: "TelemetryEvent list \<Rightarrow> FrictionPattern list \<Rightarrow> error + FrictionPattern list" where
  "rapid_click_loop [] patterns = Inr patterns"
| "rapid_click_loop (event # rest) patterns =
     (let click_count = data_get event ''clickCount'' (PNum 0);
          target = data_get event ''target'' (PStr ''unknown'')
      in case as_number click_count of
           Inl err \<Rightarrow> Inl err
         | Inr c \<Rightarrow>
             rapid_click_loop rest (patterns @
               [\<lparr> pattern_type = ''affordance_confusion'',
                  severity = min 1 (c / 10),
                  timestamp_fp = timestamp event,
                  description = RapidClicking target,
                  event_id = eventId event \<rparr>]))"

fun reversal_loop :: "TelemetryEvent list \<Rightarrow> FrictionPattern list \<Rightarrow> error + FrictionPattern list" where
  "reversal_loop [] patterns = Inr patterns"
| "reversal_loop (event # rest) patterns =
     (let time_on_page = data_get event ''timeOnPage'' (PNum 0)
      in case as_number time_on_page of
           Inl err \<Rightarrow> Inl err
         | Inr t \<Rightarrow>
             if t < 2000
             then reversal_loop rest (patterns @
                    [\<lparr> pattern_type = ''affordance_confusion'',
                       severity = 0.7,
                       timestamp_fp = timestamp event,
                       description = QuickReversal,
                       event_id = eventId event \<rparr>])
             else reversal_loop rest patterns)"

definition detect_affordance_confusion ::
  "ReconstructedSession \<Rightarrow> error + FrictionPattern list" where
  "detect_affordance_confusion session =
     (case rapid_click_loop (get_events_by_type session FRICTION_RAPID_CLICK) [] of
        Inl err \<Rightarrow> Inl err
      | Inr patterns \<Rightarrow>
          reversal_loop (get_events_by_type session FRICTION_NAVIGATION_REVERSAL) patterns)"

text \<open>
  In \<open>fields_completed / total_fields if total_fields > 0 else 0\<close> the condition is
  evaluated first, and the division only when it holds.
\<close>

fun abandon_loop :: "TelemetryEvent list \<Rightarrow> FrictionPattern list \<Rightarrow> error + FrictionPattern list" where
  "abandon_loop [] patterns = Inr patterns"
| "abandon_loop (event # rest) patterns =
     (let fields_completed = data_get event ''fieldsCompleted'' (PNum 0);
          total_fields = data_get event ''totalFields'' (PNum 1)
      in case as_number total_fields of
           Inl err \<Rightarrow> Inl err
         | Inr tf \<Rightarrow>
             (case (if tf > 0
                    then (case as_number fields_completed of
                            Inl err \<Rightarrow> Inl err
                          | Inr fc \<Rightarrow> Inr (fc / tf))
                    else Inr 0) of
                Inl err \<Rightarrow> Inl err
              | Inr completion_rate \<Rightarrow>
                  abandon_loop rest (patterns @
                    [\<lparr> pattern_type = ''cognitive_overload'',
                       severity = 1 - completion_rate,
                       timestamp_fp = timestamp event,
                       description = FormAbandoned fields_completed total_fields,
                       event_id = eventId event \<rparr>])))"

definition detect_cognitive_overload ::
  "ReconstructedSession \<Rightarrow> error + FrictionPattern list" where
  "detect_cognitive_overload session =
     abandon_loop (get_events_by_type session FRICTION_FORM_ABANDONMENT) []"

text \<open>
  The last rule only interpolates event data into a description and reads
  \<open>reversals[-1]\<close> of a list of at least three elements: it cannot raise.
\<close>

fun error_loop :: "TelemetryEvent list \<Rightarrow> FrictionPattern list \<Rightarrow> FrictionPattern list" where
  "error_loop [] patterns = patterns"
| "error_loop (event # rest) patterns =
     (let error_type = data_get event ''errorType'' (PStr ''unknown'')
      in error_loop rest (patterns @
           [\<lparr> pattern_type = ''expectation_mismatch'',
              severity = 0.8,
              timestamp_fp = timestamp event,
              description = ErrorEncountered error_type,
              event_id = eventId event \<rparr>]))"

definition detect_expectation_mismatch :: "ReconstructedSession \<Rightarrow> FrictionPattern list" where
  "detect_expectation_mismatch session =
     (let patterns = error_loop (get_events_by_type session FRICTION_ERROR) [];
          reversals = get_events_by_type session FRICTION_NAVIGATION_REVERSAL
      in if length reversals \<ge> 3
         then patterns @
              [\<lparr> pattern_type = ''expectation_mismatch'',
                 severity = 0.6,
                 timestamp_fp = timestamp (last reversals),
                 description = MultipleReversals (length reversals),
                 event_id = eventId (last reversals) \<rparr>]
         else patterns)"

text \<open>
  The classifier keeps the history of all patterns it has found. \<open>analyze_session\<close>
  returns the patterns of the session and the classifier with its history extended; when a
  rule raises, the history has not been touched.
\<close>

record FrictionClassifier =
  patterns :: "FrictionPattern list"

definition FrictionClassifier_init :: FrictionClassifier where
  "FrictionClassifier_init = \<lparr> patterns = [] \<rparr>"

definition analyze_session ::
  "FrictionClassifier \<Rightarrow> ReconstructedSession \<Rightarrow> error + (FrictionPattern list \<times> FrictionClassifier)" where
  "analyze_session c session =
     (case detect_performance_degradation session of
        Inl err \<Rightarrow> Inl err
      | Inr p1 \<Rightarrow>
     (case detect_affordance_confusion session of
        Inl err \<Rightarrow> Inl err
      | Inr p2 \<Rightarrow>
     (case detect_cognitive_overload session of
        Inl err \<Rightarrow> Inl err
      | Inr p3 \<Rightarrow>
          (let ps = p1 @ p2 @ p3 @ detect_expectation_mismatch session
           in Inr (ps, c\<lparr> patterns := patterns c @ ps \<rparr>)))))"


definition severities_ok :: "FrictionPattern list \<Rightarrow> bool" where
  "severities_ok ps = (\<forall>p \<in> set ps. 0 \<le> severity p \<and> severity p \<le> 1)"



definition load_time_of :: "TelemetryEvent \<Rightarrow> real" where
  "load_time_of e = (case as_number (data_get e ''loadTime'' (PNum 0)) of Inl _ \<Rightarrow> 0 | Inr x \<Rightarrow> x)"

fun is_slow_load :: "description \<Rightarrow> bool" where
  "is_slow_load (SlowPageLoad _) = True"
| "is_slow_load _ = False"


text \<open>Navigation reversals arriving out of order, among other events.\<close>

definition session_three_reversals :: ReconstructedSession where
  "session_three_reversals = ReconstructedSession_init 0 ''s''
     [sample_event FRICTION_NAVIGATION_REVERSAL ''r3'' ''s'' 30 7 [(''timeOnPage'', PNum 5000)],
      sample_event FRICTION_ERROR ''x'' ''s'' 15 2 [],
      sample_event FRICTION_NAVIGATION_REVERSAL ''r1'' ''s'' 10 1 [(''timeOnPage'', PNum 5000)],
      sample_event FRICTION_NAVIGATION_REVERSAL ''r2'' ''s'' 20 4 [(''timeOnPage'', PNum 5000)]]"

definition session_two_reversals :: ReconstructedSession where
  "session_two_reversals = ReconstructedSession_init 0 ''s''
     [sample_event FRICTION_NAVIGATION_REVERSAL ''r2'' ''s'' 20 4 [],
      sample_event FRICTION_NAVIGATION_REVERSAL ''r1'' ''s'' 10 1 []]"

section \<open>Strings\<close>

text \<open>
  The string operations of Python that the source uses, on strings of 8-bit characters;
  letters are the ASCII letters.
\<close>

definition is_lower :: "char \<Rightarrow> bool" where
  "is_lower c = (97 \<le> (of_char c :: nat) \<and> (of_char c :: nat) \<le> 122)"

definition is_upper :: "char \<Rightarrow> bool" where
  "is_upper c = (65 \<le> (of_char c :: nat) \<and> (of_char c :: nat) \<le> 90)"

definition to_upper :: "char \<Rightarrow> char" where
  "to_upper c = (if is_lower c then char_of ((of_char c :: nat) - 32) else c)"

definition to_lower :: "char \<Rightarrow> char" where
  "to_lower c = (if is_upper c then char_of ((of_char c :: nat) + 32) else c)"

text \<open>\<open>str.lower()\<close>.\<close>

definition str_lower :: "string \<Rightarrow> string" where
  "str_lower s = map to_lower s"

text \<open>
  \<open>str.title()\<close>: a letter that follows a letter is put in lower case, any other letter
  in upper case. The flag says whether the previous character was a letter.
\<close>

fun title_from :: "bool \<Rightarrow> string \<Rightarrow> string" where
  "title_from prev [] = []"
| "title_from prev (c # cs) =
     (if is_lower c then (if prev then c else to_upper c) # title_from True cs
      else if is_upper c then (if prev then to_lower c else c) # title_from True cs
      else c # title_from False cs)"

definition title :: "string \<Rightarrow> string" where
  "title s = title_from False s"

text \<open>\<open>sub in s\<close> for strings.\<close>

fun contains :: "string \<Rightarrow> string \<Rightarrow> bool" where
  "contains sub [] = (sub = [])"
| "contains sub (c # cs) = (take (length sub) (c # cs) = sub \<or> contains sub cs)"

text \<open>
  \<open>s.replace(old, new)\<close> for a non-empty \<open>old\<close>: the occurrences of \<open>old\<close> are replaced
  from left to right, without overlap. (The source calls it with \<open>"_"\<close> and \<open>"user "\<close>.)
\<close>

function str_replace :: "string \<Rightarrow> string \<Rightarrow> string \<Rightarrow> string" where
  "str_replace old new s =
     (if s = [] \<or> old = [] then s
      else if take (length old) s = old then new @ str_replace old new (drop (length old) s)
      else hd s # str_replace old new (tl s))"
  by pat_completeness auto
termination
  by (relation "measure (\<lambda>(old, new, s). length s)") (auto simp: less_Suc_eq_le)

declare str_replace.simps [simp del]

text \<open>\<open>str(n)\<close> for a natural number.\<close>

definition digit_char :: "nat \<Rightarrow> char" where
  "digit_char d = ''0123456789'' ! d"

function string_of_nat :: "nat \<Rightarrow> string" where
  "string_of_nat n =
     (if n < 10 then [digit_char n] else string_of_nat (n div 10) @ [digit_char (n mod 10)])"
  by pat_completeness auto
termination
  by (relation "measure id") auto

declare string_of_nat.simps [simp del]

text \<open>\<open>sep.join(lines)\<close>.\<close>

fun join :: "string \<Rightarrow> string list \<Rightarrow> string" where
  "join sep [] = []"
| "join sep [l] = l"
| "join sep (l # ls) = l @ sep @ join sep ls"

section \<open>Intent inference (analysis/intent\_inferrer.py, models/session.py)\<close>

record IntentHypothesis =
  hypothesis :: string
  confidence :: real
  supporting_evidence :: "string list"
  timestamp_ih :: int

text \<open>
  The model class declares \<open>timestamp: datetime\<close> without a default: a hypothesis
  constructed without a timestamp is refused with a validation error.
\<close>

definition IntentHypothesis_init ::
  "string \<Rightarrow> real \<Rightarrow> string list \<Rightarrow> int option \<Rightarrow> error + IntentHypothesis" where
  "IntentHypothesis_init h c ev ts =
     (case ts of
        None \<Rightarrow> Inl ValidationError
      | Some t \<Rightarrow> Inr \<lparr> hypothesis = h, confidence = c, supporting_evidence = ev, timestamp_ih = t \<rparr>)"

text \<open>
  \<open>get_event_sequence\<close>: one entry per event of the ordered sequence. The keys
  \<open>url\<close> and \<open>pageTitle\<close> of the inner dict are always present, with the value \<open>None\<close>
  where the context has none. The type of an event is a member of the enumeration, and
  \<open>event.type.value\<close> its string. The timestamp is kept as the instant, not as its ISO
  text.
\<close>

record SequenceEntry =
  seq_type :: string
  seq_timestamp :: int
  seq_sequence :: int
  seq_data :: "string \<rightharpoonup> pyval"
  seq_url :: "string option"
  seq_pageTitle :: "string option"

definition get_event_sequence :: "ReconstructedSession \<Rightarrow> SequenceEntry list" where
  "get_event_sequence session =
     map (\<lambda>event. \<lparr> seq_type = EventType_value (type event),
                     seq_timestamp = timestamp event,
                     seq_sequence = sequenceNumber event,
                     seq_data = data event,
                     seq_url = url (event_context event),
                     seq_pageTitle = pageTitle (event_context event) \<rparr>)
         (events session)"

text \<open>
  \<open>_prepare_event_summary\<close>. The loop runs over \<open>sequence[:20]\<close> with the index \<open>i\<close>
  of \<open>enumerate\<close>. As the key \<open>pageTitle\<close> is present, \<open>.get("pageTitle", "Unknown")\<close>
  yields its value, and a value \<open>None\<close> is formatted as \<open>None\<close>.
\<close>

fun summary_loop :: "nat \<Rightarrow> SequenceEntry list \<Rightarrow> string list \<Rightarrow> string list" where
  "summary_loop i [] summary_lines = summary_lines"
| "summary_loop i (event # rest) summary_lines =
     (let event_type = title (str_replace ''_'' '' '' (seq_type event));
          page_title = (case seq_pageTitle event of None \<Rightarrow> ''None'' | Some t \<Rightarrow> t)
      in summary_loop (i + 1) rest
           (summary_lines @ [string_of_nat (i + 1) @ ''. '' @ event_type @ '' - '' @ page_title]))"

definition prepare_event_summary_lines :: "ReconstructedSession \<Rightarrow> string list" where
  "prepare_event_summary_lines session =
     (let sequence = get_event_sequence session;
          summary_lines = summary_loop 0 (take 20 sequence) []
      in if length sequence > 20
         then summary_lines @
              [''... and '' @ string_of_nat (length sequence - 20) @ '' more events'']
         else summary_lines)"

definition prepare_event_summary :: "ReconstructedSession \<Rightarrow> string" where
  "prepare_event_summary session = join [CHR 0x0A] (prepare_event_summary_lines session)"




section \<open>Insight generation (analysis/insight\_generator.py, models/session.py)\<close>

text \<open>
  The recommendations are eight fixed texts of the source, each beginning with another
  emoji, one of them completed by a piece of a hypothesis. A constructor stands for each
  text: \<open>CriticalPerformance\<close> for "Critical: Optimize page load performance ...",
  \<open>MonitorPerformance\<close> for "Monitor and improve performance metrics ...",
  \<open>VisualFeedback\<close> for "Improve visual feedback ...", \<open>SimplifyForms\<close> for "Simplify
  forms ...", \<open>AlignExpectations\<close> for "Align UI behavior ...", \<open>Struggling t\<close> for
  "User appears to be struggling with: t", \<open>SmoothSession\<close> for "Session appears smooth
  with no major friction detected" and \<open>HighFriction\<close> for "High friction detected across
  multiple areas - prioritize UX improvements".
\<close>

datatype recommendation =
    CriticalPerformance
  | MonitorPerformance
  | VisualFeedback
  | SimplifyForms
  | AlignExpectations
  | Struggling string
  | SmoothSession
  | HighFriction

record InsightSummary =
  session_id_is :: string
  timestamp_is :: int
  intent_hypotheses :: "IntentHypothesis list"
  friction_patterns :: "FrictionPattern list"
  recommendations :: "recommendation list"
  confidence_score :: real

text \<open>The loop that groups the patterns by type into the dict \<open>friction_by_type\<close>.\<close>

fun group_by_type ::
  "FrictionPattern list \<Rightarrow> (string \<rightharpoonup> FrictionPattern list) \<Rightarrow> (string \<rightharpoonup> FrictionPattern list)" where
  "group_by_type [] d = d"
| "group_by_type (pattern # rest) d =
     (let d1 = (if d (pattern_type pattern) = None then d(pattern_type pattern \<mapsto> []) else d)
      in group_by_type rest
           (d1(pattern_type pattern \<mapsto>
                 (case d1 (pattern_type pattern) of None \<Rightarrow> [] | Some ps \<Rightarrow> ps) @ [pattern])))"

text \<open>The loop over the hypotheses; \<open>recs\<close> is the list of recommendations so far.\<close>

fun intent_loop :: "IntentHypothesis list \<Rightarrow> recommendation list \<Rightarrow> recommendation list" where
  "intent_loop [] recs = recs"
| "intent_loop (h # rest) recs =
     (if confidence h > 0.7
      then (if contains ''abandon'' (str_lower (hypothesis h))
               \<or> contains ''unable'' (str_lower (hypothesis h))
            then intent_loop rest
                   (recs @ [Struggling (str_replace ''user '' '''' (str_lower (hypothesis h)))])
            else intent_loop rest recs)
      else intent_loop rest recs)"

definition generate_recommendations ::
  "ReconstructedSession \<Rightarrow> FrictionPattern list \<Rightarrow> IntentHypothesis list \<Rightarrow> recommendation list" where
  "generate_recommendations session fps hs =
     (let friction_by_type = group_by_type fps Map.empty;
          r1 = (case friction_by_type ''performance_degradation'' of
                  None \<Rightarrow> []
                | Some ps \<Rightarrow>
                    (let avg_severity = sum_list (map severity ps) / real (length ps)
                     in if avg_severity > 0.7 then [CriticalPerformance] else [MonitorPerformance]));
          r2 = (if friction_by_type ''affordance_confusion'' \<noteq> None then r1 @ [VisualFeedback] else r1);
          r3 = (if friction_by_type ''cognitive_overload'' \<noteq> None then r2 @ [SimplifyForms] else r2);
          r4 = (if friction_by_type ''expectation_mismatch'' \<noteq> None then r3 @ [AlignExpectations] else r3);
          r5 = intent_loop hs r4
      in if length fps = 0 then r5 @ [SmoothSession]
         else if length fps \<ge> 5 then r5 @ [HighFriction]
         else r5)"

text \<open>
  \<open>max\<close> over the confidences: the first argument is the largest value so far. \<open>round(x, 2)\<close>
  rounds to the nearest multiple of 1/100 and, of two nearest ones, to the even one.
  Floats are read as real numbers.
\<close>

fun py_max :: "real \<Rightarrow> real list \<Rightarrow> real" where
  "py_max m [] = m"
| "py_max m (x # xs) = py_max (if x > m then x else m) xs"

definition round_half_even :: "real \<Rightarrow> int" where
  "round_half_even y =
     (let f = \<lfloor>y\<rfloor>; d = y - of_int f
      in if d < 1 / 2 then f
         else if d > 1 / 2 then f + 1
         else if even f then f else f + 1)"

definition py_round :: "real \<Rightarrow> nat \<Rightarrow> real" where
  "py_round x ndigits = of_int (round_half_even (x * 10 ^ ndigits)) / 10 ^ ndigits"

definition calculate_confidence :: "IntentHypothesis list \<Rightarrow> FrictionPattern list \<Rightarrow> real" where
  "calculate_confidence hs fps =
     (let intent_confidence =
            (case hs of [] \<Rightarrow> 0 | h # rest \<Rightarrow> py_max (confidence h) (map confidence rest));
          friction_factor = min 1 (real (length fps) / 10);
          conf = intent_confidence * 0.7 + friction_factor * 0.3
      in py_round conf 2)"

text \<open>
  \<open>ReconstructedSession\<close> has the attributes \<open>session_id\<close>, \<open>events\<close>, \<open>start_time\<close>
  and \<open>end_time\<close> and six methods, and no attribute \<open>metrics\<close>: reading
  \<open>session.metrics\<close> raises \<open>AttributeError\<close>.
\<close>

definition session_metrics :: "ReconstructedSession \<Rightarrow> error + (string \<rightharpoonup> nat)" where
  "session_metrics session = Inl AttributeError"

text \<open>
  The handler of \<open>generate_insights\<close> for a failed inference. The arguments of the
  hypothesis are evaluated first, among them \<open>session.metrics.get('page_views', 0)\<close>; the
  hypothesis is then constructed without a timestamp.
\<close>

definition fallback_hypotheses :: "ReconstructedSession \<Rightarrow> error + IntentHypothesis list" where
  "fallback_hypotheses session =
     (case session_metrics session of
        Inl err \<Rightarrow> Inl err
      | Inr metrics \<Rightarrow>
          (case IntentHypothesis_init
                  ''User interacted with the application (AI inference unavailable - OpenAI API key not configured)''
                  0.5
                  [''Session included '' @ string_of_nat (length (events session)) @ '' events'',
                   ''User visited ''
                     @ string_of_nat (case metrics ''page_views'' of None \<Rightarrow> 0 | Some n \<Rightarrow> n)
                     @ '' pages'']
                  None of
             Inl err \<Rightarrow> Inl err
           | Inr h \<Rightarrow> Inr [h]))"

text \<open>
  The generator owns a classifier; the inferrer it was given is the parameter \<open>infer\<close>,
  which returns the hypotheses or the exception it raises. \<open>generate_insights\<close> returns the
  summary and the generator with the classifier's history extended, or the exception that
  leaves it.
\<close>

record InsightGenerator =
  friction_classifier :: FrictionClassifier

definition InsightGenerator_init :: InsightGenerator where
  "InsightGenerator_init = \<lparr> friction_classifier = FrictionClassifier_init \<rparr>"

definition generate_insights ::
  "(ReconstructedSession \<Rightarrow> FrictionPattern list \<Rightarrow> error + IntentHypothesis list)
   \<Rightarrow> InsightGenerator \<Rightarrow> ReconstructedSession \<Rightarrow> error + (InsightSummary \<times> InsightGenerator)" where
  "generate_insights infer g session =
     (case analyze_session (friction_classifier g) session of
        Inl err \<Rightarrow> Inl err
      | Inr (fps, c') \<Rightarrow>
          (case (case infer session fps of
                   Inl err \<Rightarrow> fallback_hypotheses session
                 | Inr hs \<Rightarrow> Inr hs) of
             Inl err \<Rightarrow> Inl err
           | Inr hs \<Rightarrow>
               Inr (\<lparr> session_id_is = session_id session,
                      timestamp_is = (case end_time session of Some t \<Rightarrow> t | None \<Rightarrow> start_time session),
                      intent_hypotheses = hs,
                      friction_patterns = fps,
                      recommendations = generate_recommendations session fps hs,
                      confidence_score = calculate_confidence hs fps \<rparr>,
                    g\<lparr> friction_classifier := c' \<rparr>)))"

text \<open>Sample inputs for the generator.\<close>

definition empty_session :: ReconstructedSession where
  "empty_session = ReconstructedSession_init 0 ''s'' []"

definition sample_hypothesis :: "string \<Rightarrow> real \<Rightarrow> IntentHypothesis" where
  "sample_hypothesis h c =
     \<lparr> hypothesis = h, confidence = c, supporting_evidence = [], timestamp_ih = 0 \<rparr>"




text \<open>A session of five error events.\<close>

definition session_five_errors :: ReconstructedSession where
  "session_five_errors = ReconstructedSession_init 0 ''s''
     (map (\<lambda>n. sample_event FRICTION_ERROR (''e'' @ string_of_nat n) ''s'' (int n) (int n) [])
        [1..<6])"

section \<open>Session reconstruction: ordering and time bounds\<close>

lemma buffer_add_event:
  "(case map_of (sessions (add_event r e)) sid of None \<Rightarrow> [] | Some es \<Rightarrow> es) =
   (case map_of (sessions r) sid of None \<Rightarrow> [] | Some es \<Rightarrow> es) @ (if sessionId e = sid then [e] else [])"
proof -
  have upd: "map_of (map (\<lambda>(k, v). if k = a then (k, v @ [e]) else (k, v)) d) sid =
      (case map_of d sid of None \<Rightarrow> None | Some v \<Rightarrow> Some (if sid = a then v @ [e] else v))"
    for a and d :: "(string \<times> TelemetryEvent list) list"
    by (induction d) auto
  show ?thesis
    by (cases "map_of (sessions r) (sessionId e)")
       (auto simp: add_event_def Let_def upd map_add_def map_of_append split: option.splits)
qed

lemma buffer_add_events:
  "(case map_of (sessions (add_events r es)) sid of None \<Rightarrow> [] | Some xs \<Rightarrow> xs) =
   (case map_of (sessions r) sid of None \<Rightarrow> [] | Some xs \<Rightarrow> xs) @ filter (\<lambda>e. sessionId e = sid) es"
proof (induction es arbitrary: r)
  case Nil
  show ?case by simp
next
  case (Cons e es)
  show ?case
    unfolding add_events.simps Cons.IH buffer_add_event by simp
qed

lemma buffer_batches:
  "(case map_of (sessions (foldl add_events r bs)) sid of None \<Rightarrow> [] | Some xs \<Rightarrow> xs) =
   (case map_of (sessions r) sid of None \<Rightarrow> [] | Some xs \<Rightarrow> xs) @ filter (\<lambda>e. sessionId e = sid) (concat bs)"
proof (induction bs arbitrary: r)
  case Nil
  show ?case by simp
next
  case (Cons b bs)
  show ?case
    unfolding foldl_Cons Cons.IH buffer_add_events by simp
qed

lemma sorted_between:
  fixes xs :: "int list"
  assumes "sorted xs" and "x \<in> set xs"
  shows "hd xs \<le> x \<and> x \<le> last xs"
  using assms by (induction xs) (auto split: if_splits)

text \<open>
  C1 (as amended). For a non-empty session whose events were handed over already in ascending
  sequence order, the start time is the timestamp of the first event of the ordered sequence
  and the end time that of the last; if moreover the timestamps do not decrease along the
  ordered sequence, every event's timestamp lies between the start and the end time.
\<close>

theorem session_times_of_ordered_input:
  assumes "evs \<noteq> []" and "sorted (map sequenceNumber evs)"
  shows "start_time (ReconstructedSession_init now sid evs)
           = timestamp (hd (events (ReconstructedSession_init now sid evs)))
       \<and> end_time (ReconstructedSession_init now sid evs)
           = Some (timestamp (last (events (ReconstructedSession_init now sid evs))))
       \<and> (sorted (map timestamp (events (ReconstructedSession_init now sid evs))) \<longrightarrow>
            (\<forall>e \<in> set (events (ReconstructedSession_init now sid evs)).
               start_time (ReconstructedSession_init now sid evs) \<le> timestamp e
             \<and> timestamp e \<le> timestamp (last (events (ReconstructedSession_init now sid evs)))))"
proof -
  have ev: "events (ReconstructedSession_init now sid evs) = evs"
    using assms(2) by (simp add: ReconstructedSession_init_def sort_key_id_if_sorted)
  have st: "start_time (ReconstructedSession_init now sid evs) = timestamp (hd evs)"
    using assms(1) by (cases evs) (simp_all add: ReconstructedSession_init_def)
  have en: "end_time (ReconstructedSession_init now sid evs) = Some (timestamp (last evs))"
    using assms(1) by (cases evs) (simp_all add: ReconstructedSession_init_def)
  have bd: "timestamp (hd evs) \<le> timestamp e \<and> timestamp e \<le> timestamp (last evs)"
    if "sorted (map timestamp evs)" "e \<in> set evs" for e
    using sorted_between [of "map timestamp evs" "timestamp e"] that assms(1)
    by (simp add: hd_map last_map)
  show ?thesis
    unfolding ev st en using bd by blast
qed

theorem session_times_of_ordered_input_witness:
  "(let evs = [sample_event SESSION_START ''e1'' ''s'' 10 1 [],
               sample_event SESSION_END ''e2'' ''s'' 20 2 []];
        s = ReconstructedSession_init 0 ''s'' evs
    in evs \<noteq> [] \<and> sorted (map sequenceNumber evs) \<and> sorted (map timestamp (events s))
       \<and> start_time s = 10 \<and> end_time s = Some 20
       \<and> timestamp (hd (events s)) = 10 \<and> timestamp (last (events s)) = 20
       \<and> (\<forall>e \<in> set (events s). start_time s \<le> timestamp e \<and> timestamp e \<le> 20))"
  using session_times_of_ordered_input
    [of "[sample_event SESSION_START ''e1'' ''s'' 10 1 [],
          sample_event SESSION_END ''e2'' ''s'' 20 2 []]" 0 "''s''"]
  by (simp add: ReconstructedSession_init_def sample_event_def Let_def)

text \<open>
  C1 as stated fails. Inserted as (sequence 2, time 5), (sequence 1, time 10), the session
  starts at 5 while the first event of the ordered sequence has time 10. Inserted in sequence
  order as (sequence 1, time 10), (sequence 2, time 5), the start time 10 exceeds the
  timestamp 5 of the last event.
\<close>

theorem session_times_counterexample:
  "start_time (ReconstructedSession_init 0 ''s''
       [sample_event ACTION_CLICK ''b'' ''s'' 5 2 [], sample_event ACTION_CLICK ''a'' ''s'' 10 1 []])
     \<noteq> timestamp (hd (events (ReconstructedSession_init 0 ''s''
       [sample_event ACTION_CLICK ''b'' ''s'' 5 2 [], sample_event ACTION_CLICK ''a'' ''s'' 10 1 []])))
   \<and> \<not> (start_time (ReconstructedSession_init 0 ''s''
       [sample_event ACTION_CLICK ''a'' ''s'' 10 1 [], sample_event ACTION_CLICK ''b'' ''s'' 5 2 []])
        \<le> timestamp (last (events (ReconstructedSession_init 0 ''s''
       [sample_event ACTION_CLICK ''a'' ''s'' 10 1 [], sample_event ACTION_CLICK ''b'' ''s'' 5 2 []]))))"
  by (simp add: ReconstructedSession_init_def sample_event_def)

text \<open>
  C4. After any batches of events have been added to a fresh reconstructor, the events of
  \<open>get_session sid\<close> are in ascending order of sequence number, they are exactly the events
  that arrived for \<open>sid\<close>, and the events of any one sequence number \<open>k\<close> appear in their
  order of arrival. Every function involved is total: no input makes the reconstructor raise.
\<close>

theorem get_session_sorted_stable:
  "sorted (map sequenceNumber
      (events (fst (get_session now (foldl add_events SessionReconstructor_init bs) sid))))
   \<and> mset (events (fst (get_session now (foldl add_events SessionReconstructor_init bs) sid)))
       = mset (filter (\<lambda>e. sessionId e = sid) (concat bs))
   \<and> filter (\<lambda>e. sequenceNumber e = k)
        (events (fst (get_session now (foldl add_events SessionReconstructor_init bs) sid)))
       = filter (\<lambda>e. sequenceNumber e = k) (filter (\<lambda>e. sessionId e = sid) (concat bs))"
proof -
  have buf: "(case map_of (sessions (foldl add_events SessionReconstructor_init bs)) sid of
                None \<Rightarrow> [] | Some xs \<Rightarrow> xs) = filter (\<lambda>e. sessionId e = sid) (concat bs)"
    unfolding buffer_batches by (simp add: SessionReconstructor_init_def)
  have ev: "events (fst (get_session now (foldl add_events SessionReconstructor_init bs) sid))
      = sort_key sequenceNumber (filter (\<lambda>e. sessionId e = sid) (concat bs))"
    unfolding get_session_def Let_def buf by (simp add: ReconstructedSession_init_def)
  show ?thesis
    unfolding ev by (simp add: sort_key_stable)
qed

text \<open>
  C10. The three queries return the reconstructor as they found it, so the session count is
  the same before and after \<open>get_session\<close>; for an unknown session id \<open>get_session\<close> returns
  a session without events and the id is still unknown afterwards.
\<close>

theorem queries_leave_buffer_unchanged:
  "snd (get_session now r sid) = r
   \<and> snd (get_all_sessions now r) = r
   \<and> snd (get_session_count r) = r
   \<and> fst (get_session_count (snd (get_session now r sid))) = fst (get_session_count r)
   \<and> (map_of (sessions r) sid = None \<longrightarrow>
        events (fst (get_session now r sid)) = []
      \<and> map_of (sessions (snd (get_session now r sid))) sid = None)"
  by (simp add: get_session_def get_all_sessions_def get_session_count_def Let_def
        ReconstructedSession_init_def)

theorem queries_leave_buffer_unchanged_witness:
  "(let r = add_events SessionReconstructor_init [sample_event ACTION_CLICK ''a'' ''s1'' 10 1 []]
    in map_of (sessions r) ''s2'' = None
       \<and> events (fst (get_session 0 r ''s2'')) = []
       \<and> snd (get_session 0 r ''s2'') = r
       \<and> fst (get_session_count r) = 1
       \<and> fst (get_session_count (snd (get_session 0 r ''s2''))) = 1)"
  using queries_leave_buffer_unchanged
    [of 0 "add_events SessionReconstructor_init [sample_event ACTION_CLICK ''a'' ''s1'' 10 1 []]" "''s2''"]
  by (simp add: Let_def add_event_def SessionReconstructor_init_def sample_event_def
        get_session_count_def)

section \<open>Friction classification: severities\<close>

lemma severities_ok_append [simp]:
  "severities_ok (ps @ qs) \<longleftrightarrow> severities_ok ps \<and> severities_ok qs"
  by (auto simp: severities_ok_def)

lemma severities_ok_Nil [simp]: "severities_ok []"
  by (simp add: severities_ok_def)






lemma error_loop_eq:
  "error_loop evs acc = acc @ map (\<lambda>e. \<lparr> pattern_type = ''expectation_mismatch'',
              severity = 0.8,
              timestamp_fp = timestamp e,
              description = ErrorEncountered (data_get e ''errorType'' (PStr ''unknown'')),
              event_id = eventId e \<rparr>) evs"
  by (induction evs arbitrary: acc) (simp_all add: Let_def)






section \<open>Friction classification: the rules\<close>



lemma load_loop_Inr:
  "load_loop evs acc = Inr ps \<Longrightarrow>
   ps = acc @
     map (\<lambda>e. \<lparr> pattern_type = ''performance_degradation'',
                severity = min 1 (load_time_of e / 10000),
                timestamp_fp = timestamp e,
                description = SlowPageLoad (data_get e ''loadTime'' (PNum 0)),
                event_id = eventId e \<rparr>)
         (filter (\<lambda>e. 3000 < load_time_of e) evs)"
proof (induction evs arbitrary: acc)
  case Nil
  then show ?case by simp
next
  case (Cons e evs)
  from Cons.prems obtain lt where lt: "as_number (data_get e ''loadTime'' (PNum 0)) = Inr lt"
    by (auto simp: Let_def split: sum.splits)
  then have lto: "load_time_of e = lt"
    by (simp add: load_time_of_def)
  let ?p = "\<lparr> pattern_type = ''performance_degradation'',
                severity = min 1 (lt / 10000),
                timestamp_fp = timestamp e,
                description = SlowPageLoad (data_get e ''loadTime'' (PNum 0)),
                event_id = eventId e \<rparr>"
  show ?case
  proof (cases "3000 < lt")
    case True
    with Cons.prems lt have "load_loop evs (acc @ [?p]) = Inr ps"
      by (simp add: Let_def)
    from Cons.IH [OF this] True lto show ?thesis
      by simp
  next
    case False
    with Cons.prems lt have "load_loop evs acc = Inr ps"
      by (simp add: Let_def)
    from Cons.IH [OF this] False lto show ?thesis
      by simp
  qed
qed

lemma latency_loop_Inr:
  "latency_loop evs acc = Inr ps \<Longrightarrow>
   \<exists>qs. ps = acc @ qs
      \<and> (\<forall>q \<in> set qs. pattern_type q = ''performance_degradation'' \<and> \<not> is_slow_load (description q))"
proof (induction evs arbitrary: acc)
  case Nil
  then show ?case by simp
next
  case (Cons e evs)
  from Cons.prems obtain l where l: "as_number (data_get e ''latency'' (PNum 0)) = Inr l"
    by (auto simp: Let_def split: sum.splits)
  let ?p = "\<lparr> pattern_type = ''performance_degradation'',
                  severity = min 1 (l / 5000),
                  timestamp_fp = timestamp e,
                  description = HighLatency (data_get e ''operation'' (PStr ''unknown'')) (data_get e ''latency'' (PNum 0)),
                  event_id = eventId e \<rparr>"
  from Cons.prems l have "latency_loop evs (acc @ [?p]) = Inr ps"
    by (simp add: Let_def)
  from Cons.IH [OF this] obtain qs where "ps = (acc @ [?p]) @ qs"
    "\<forall>q \<in> set qs. pattern_type q = ''performance_degradation'' \<and> \<not> is_slow_load (description q)"
    by blast
  then show ?case
    by (intro exI [of _ "?p # qs"]) simp
qed

lemma rapid_click_loop_Inr:
  "rapid_click_loop evs acc = Inr ps \<Longrightarrow>
   \<exists>qs. ps = acc @ qs
      \<and> (\<forall>q \<in> set qs. pattern_type q = ''affordance_confusion'' \<and> \<not> is_slow_load (description q))"
proof (induction evs arbitrary: acc)
  case Nil
  then show ?case by simp
next
  case (Cons e evs)
  from Cons.prems obtain c where c: "as_number (data_get e ''clickCount'' (PNum 0)) = Inr c"
    by (auto simp: Let_def split: sum.splits)
  let ?p = "\<lparr> pattern_type = ''affordance_confusion'',
                  severity = min 1 (c / 10),
                  timestamp_fp = timestamp e,
                  description = RapidClicking (data_get e ''target'' (PStr ''unknown'')),
                  event_id = eventId e \<rparr>"
  from Cons.prems c have "rapid_click_loop evs (acc @ [?p]) = Inr ps"
    by (simp add: Let_def)
  from Cons.IH [OF this] obtain qs where "ps = (acc @ [?p]) @ qs"
    "\<forall>q \<in> set qs. pattern_type q = ''affordance_confusion'' \<and> \<not> is_slow_load (description q)"
    by blast
  then show ?case
    by (intro exI [of _ "?p # qs"]) simp
qed

lemma reversal_loop_Inr:
  "reversal_loop evs acc = Inr ps \<Longrightarrow>
   \<exists>qs. ps = acc @ qs
      \<and> (\<forall>q \<in> set qs. pattern_type q = ''affordance_confusion'' \<and> \<not> is_slow_load (description q))"
proof (induction evs arbitrary: acc)
  case Nil
  then show ?case by simp
next
  case (Cons e evs)
  from Cons.prems obtain t where t: "as_number (data_get e ''timeOnPage'' (PNum 0)) = Inr t"
    by (auto simp: Let_def split: sum.splits)
  let ?p = "\<lparr> pattern_type = ''affordance_confusion'',
                       severity = 0.7,
                       timestamp_fp = timestamp e,
                       description = QuickReversal,
                       event_id = eventId e \<rparr>"
  show ?case
  proof (cases "t < 2000")
    case True
    with Cons.prems t have "reversal_loop evs (acc @ [?p]) = Inr ps"
      by (simp add: Let_def)
    from Cons.IH [OF this] obtain qs where "ps = (acc @ [?p]) @ qs"
      "\<forall>q \<in> set qs. pattern_type q = ''affordance_confusion'' \<and> \<not> is_slow_load (description q)"
      by blast
    then show ?thesis
      by (intro exI [of _ "?p # qs"]) simp
  next
    case False
    with Cons.prems t have "reversal_loop evs acc = Inr ps"
      by (simp add: Let_def)
    from Cons.IH [OF this] show ?thesis .
  qed
qed

lemma abandon_loop_Inr:
  "abandon_loop evs acc = Inr ps \<Longrightarrow>
   \<exists>qs. ps = acc @ qs
      \<and> (\<forall>q \<in> set qs. pattern_type q = ''cognitive_overload'' \<and> \<not> is_slow_load (description q))"
proof (induction evs arbitrary: acc)
  case Nil
  then show ?case by simp
next
  case (Cons e evs)
  from Cons.prems obtain p where p: "abandon_loop evs (acc @ [p]) = Inr ps"
    "pattern_type p = ''cognitive_overload''" "\<not> is_slow_load (description p)"
    by (auto simp: Let_def split: sum.splits if_splits)
  from Cons.IH [OF p(1)] obtain qs where "ps = (acc @ [p]) @ qs"
    "\<forall>q \<in> set qs. pattern_type q = ''cognitive_overload'' \<and> \<not> is_slow_load (description q)"
    by blast
  with p(2,3) show ?case
    by (intro exI [of _ "p # qs"]) simp
qed

lemma expectation_types:
  "\<forall>q \<in> set (detect_expectation_mismatch s).
     pattern_type q = ''expectation_mismatch'' \<and> \<not> is_slow_load (description q)"
  by (simp add: detect_expectation_mismatch_def Let_def error_loop_eq)

lemma filter_none: "\<forall>q \<in> set qs. \<not> P q \<Longrightarrow> filter P qs = []"
  by (simp add: filter_empty_conv)

lemma filter_all: "\<forall>q \<in> set qs. P q \<Longrightarrow> filter P qs = qs"
  by (induction qs) simp_all

lemma analyze_session_parts:
  assumes "analyze_session c session = Inr (ps, c')"
  shows "filter (\<lambda>p. pattern_type p = ''expectation_mismatch'') ps = detect_expectation_mismatch session"
    and "filter (\<lambda>p. is_slow_load (description p)) ps =
           map (\<lambda>e. \<lparr> pattern_type = ''performance_degradation'',
                      severity = min 1 (load_time_of e / 10000),
                      timestamp_fp = timestamp e,
                      description = SlowPageLoad (data_get e ''loadTime'' (PNum 0)),
                      event_id = eventId e \<rparr>)
               (filter (\<lambda>e. type e = PERFORMANCE_LOAD \<and> 3000 < load_time_of e) (events session))"
proof -
  let ?slow = "\<lambda>e. \<lparr> pattern_type = ''performance_degradation'',
                      severity = min 1 (load_time_of e / 10000),
                      timestamp_fp = timestamp e,
                      description = SlowPageLoad (data_get e ''loadTime'' (PNum 0)),
                      event_id = eventId e \<rparr>"
  let ?found = "map ?slow (filter (\<lambda>e. 3000 < load_time_of e) (get_events_by_type session PERFORMANCE_LOAD))"
  from assms obtain l1 p1 r1 p2 p3 where
    l1: "load_loop (get_events_by_type session PERFORMANCE_LOAD) [] = Inr l1" and
    p1: "latency_loop (get_events_by_type session PERFORMANCE_LATENCY) l1 = Inr p1" and
    r1: "rapid_click_loop (get_events_by_type session FRICTION_RAPID_CLICK) [] = Inr r1" and
    p2: "reversal_loop (get_events_by_type session FRICTION_NAVIGATION_REVERSAL) r1 = Inr p2" and
    p3: "abandon_loop (get_events_by_type session FRICTION_FORM_ABANDONMENT) [] = Inr p3" and
    ps: "ps = p1 @ p2 @ p3 @ detect_expectation_mismatch session"
    by (auto simp: analyze_session_def detect_performance_degradation_def
          detect_affordance_confusion_def detect_cognitive_overload_def Let_def
          split: sum.splits)
  have l1': "l1 = ?found"
    using load_loop_Inr [OF l1] by simp
  obtain q1 where q1: "p1 = ?found @ q1"
      "\<forall>q \<in> set q1. pattern_type q = ''performance_degradation'' \<and> \<not> is_slow_load (description q)"
    using latency_loop_Inr [OF p1] unfolding l1' by blast
  obtain q2 where q2: "r1 = q2"
      "\<forall>q \<in> set q2. pattern_type q = ''affordance_confusion'' \<and> \<not> is_slow_load (description q)"
    using rapid_click_loop_Inr [OF r1] by auto
  obtain q3 where q3: "p2 = r1 @ q3"
      "\<forall>q \<in> set q3. pattern_type q = ''affordance_confusion'' \<and> \<not> is_slow_load (description q)"
    using reversal_loop_Inr [OF p2] by blast
  obtain q4 where q4: "p3 = q4"
      "\<forall>q \<in> set q4. pattern_type q = ''cognitive_overload'' \<and> \<not> is_slow_load (description q)"
    using abandon_loop_Inr [OF p3] by auto
  note q5 = expectation_types [of session]
  have e1: "filter (\<lambda>p. pattern_type p = ''expectation_mismatch'') ?found = []"
    by (simp add: filter_empty_conv)
  have e2: "filter (\<lambda>p. pattern_type p = ''expectation_mismatch'') q1 = []"
    using q1(2) by (intro filter_none) simp
  have e3: "filter (\<lambda>p. pattern_type p = ''expectation_mismatch'') q2 = []"
    using q2(2) by (intro filter_none) simp
  have e4: "filter (\<lambda>p. pattern_type p = ''expectation_mismatch'') q3 = []"
    using q3(2) by (intro filter_none) simp
  have e5: "filter (\<lambda>p. pattern_type p = ''expectation_mismatch'') q4 = []"
    using q4(2) by (intro filter_none) simp
  have e6: "filter (\<lambda>p. pattern_type p = ''expectation_mismatch'') (detect_expectation_mismatch session)
      = detect_expectation_mismatch session"
    using q5 by (intro filter_all) simp
  show "filter (\<lambda>p. pattern_type p = ''expectation_mismatch'') ps = detect_expectation_mismatch session"
    unfolding ps q1(1) q3(1) q2(1) q4(1) filter_append e1 e2 e3 e4 e5 e6 by simp
  have s1: "filter (\<lambda>p. is_slow_load (description p)) ?found = ?found"
    by (intro filter_all) simp
  have s2: "filter (\<lambda>p. is_slow_load (description p)) q1 = []"
    using q1(2) by (intro filter_none) simp
  have s3: "filter (\<lambda>p. is_slow_load (description p)) q2 = []"
    using q2(2) by (intro filter_none) simp
  have s4: "filter (\<lambda>p. is_slow_load (description p)) q3 = []"
    using q3(2) by (intro filter_none) simp
  have s5: "filter (\<lambda>p. is_slow_load (description p)) q4 = []"
    using q4(2) by (intro filter_none) simp
  have s6: "filter (\<lambda>p. is_slow_load (description p)) (detect_expectation_mismatch session) = []"
    using q5 by (intro filter_none) simp
  have f3: "?found = map ?slow (filter (\<lambda>e. type e = PERFORMANCE_LOAD \<and> 3000 < load_time_of e) (events session))"
    by (simp add: get_events_by_type_def conj_commute)
  show "filter (\<lambda>p. is_slow_load (description p)) ps =
           map ?slow (filter (\<lambda>e. type e = PERFORMANCE_LOAD \<and> 3000 < load_time_of e) (events session))"
    unfolding ps q1(1) q3(1) q2(1) q4(1) filter_append s1 s2 s3 s4 s5 s6 f3 [symmetric] by simp
qed



text \<open>
  C7. In a reconstructed session with at least three "navigation reversal" events, the
  expectation rule yields exactly one finding of severity 0.6; it carries the timestamp and
  event id of the last reversal of the ordered sequence, whose sequence number no other
  reversal exceeds. With fewer than three reversals there is no finding of severity 0.6.
  All findings of the rule have the type "expectation\_mismatch", and they are the
  patterns of that type among all the patterns that \<open>analyze_session\<close> returns.
\<close>

theorem repeated_reversal_finding:
  fixes now :: int and sid :: string and evs :: "TelemetryEvent list"
  defines "session \<equiv> ReconstructedSession_init now sid evs"
  defines "reversals \<equiv> get_events_by_type session FRICTION_NAVIGATION_REVERSAL"
  shows "(3 \<le> length reversals \<longrightarrow>
            filter (\<lambda>p. severity p = 0.6) (detect_expectation_mismatch session) =
              [\<lparr> pattern_type = ''expectation_mismatch'', severity = 0.6,
                 timestamp_fp = timestamp (last reversals),
                 description = MultipleReversals (length reversals),
                 event_id = eventId (last reversals) \<rparr>]
          \<and> (\<forall>e \<in> set reversals. sequenceNumber e \<le> sequenceNumber (last reversals)))
       \<and> (length reversals < 3 \<longrightarrow>
            filter (\<lambda>p. severity p = 0.6) (detect_expectation_mismatch session) = [])
       \<and> (\<forall>p \<in> set (detect_expectation_mismatch session). pattern_type p = ''expectation_mismatch'')
       \<and> (analyze_session c session = Inr (found, c') \<longrightarrow>
            filter (\<lambda>p. pattern_type p = ''expectation_mismatch'') found
              = detect_expectation_mismatch session)"
proof -
  have srt: "sorted (map sequenceNumber reversals)"
    unfolding reversals_def session_def get_events_by_type_def ReconstructedSession_init_def
    by (simp add: sorted_filter)
  have mx: "sequenceNumber e \<le> sequenceNumber (last reversals)" if "e \<in> set reversals" for e
  proof -
    from that have ne: "reversals \<noteq> []" by auto
    from sorted_between [OF srt, of "sequenceNumber e"] that ne show ?thesis
      by (simp add: last_map)
  qed
  have er: "filter (\<lambda>p. severity p = 0.6) (error_loop xs []) = []" for xs
    by (simp add: error_loop_eq filter_empty_conv)
  have "(3 \<le> length reversals \<longrightarrow>
            filter (\<lambda>p. severity p = 0.6) (detect_expectation_mismatch session) =
              [\<lparr> pattern_type = ''expectation_mismatch'', severity = 0.6,
                 timestamp_fp = timestamp (last reversals),
                 description = MultipleReversals (length reversals),
                 event_id = eventId (last reversals) \<rparr>]
          \<and> (\<forall>e \<in> set reversals. sequenceNumber e \<le> sequenceNumber (last reversals)))
       \<and> (length reversals < 3 \<longrightarrow>
            filter (\<lambda>p. severity p = 0.6) (detect_expectation_mismatch session) = [])
       \<and> (\<forall>p \<in> set (detect_expectation_mismatch session). pattern_type p = ''expectation_mismatch'')"
    using mx
    by (auto simp: detect_expectation_mismatch_def Let_def er reversals_def [symmetric] error_loop_eq)
  with analyze_session_parts(1) [of c session found c'] show ?thesis
    by blast
qed

theorem repeated_reversal_finding_witness:
  "3 \<le> length (get_events_by_type session_three_reversals FRICTION_NAVIGATION_REVERSAL)
   \<and> filter (\<lambda>p. severity p = 0.6) (detect_expectation_mismatch session_three_reversals) =
       [\<lparr> pattern_type = ''expectation_mismatch'', severity = 0.6, timestamp_fp = 30,
          description = MultipleReversals 3, event_id = ''r3'' \<rparr>]
   \<and> length (detect_expectation_mismatch session_three_reversals) = 2
   \<and> length (get_events_by_type session_two_reversals FRICTION_NAVIGATION_REVERSAL) < 3
   \<and> filter (\<lambda>p. severity p = 0.6) (detect_expectation_mismatch session_two_reversals) = []"
  using repeated_reversal_finding [of 0 "''s''"
      "[sample_event FRICTION_NAVIGATION_REVERSAL ''r3'' ''s'' 30 7 [(''timeOnPage'', PNum 5000)],
        sample_event FRICTION_ERROR ''x'' ''s'' 15 2 [],
        sample_event FRICTION_NAVIGATION_REVERSAL ''r1'' ''s'' 10 1 [(''timeOnPage'', PNum 5000)],
        sample_event FRICTION_NAVIGATION_REVERSAL ''r2'' ''s'' 20 4 [(''timeOnPage'', PNum 5000)]]"]
    repeated_reversal_finding [of 0 "''s''"
      "[sample_event FRICTION_NAVIGATION_REVERSAL ''r2'' ''s'' 20 4 [],
        sample_event FRICTION_NAVIGATION_REVERSAL ''r1'' ''s'' 10 1 []]"]
  by (simp add: session_three_reversals_def session_two_reversals_def
        ReconstructedSession_init_def sample_event_def get_events_by_type_def
        detect_expectation_mismatch_def Let_def data_get_def)

section \<open>Insight generation: fallback and confidence\<close>







section \<open>Insight generation: recommendations\<close>

lemma intent_loop_eq:
  "intent_loop hs recs = recs @
     map (\<lambda>h. Struggling (str_replace ''user '' '''' (str_lower (hypothesis h))))
       (filter (\<lambda>h. confidence h > 0.7
                  \<and> (contains ''abandon'' (str_lower (hypothesis h))
                     \<or> contains ''unable'' (str_lower (hypothesis h)))) hs)"
  by (induction hs arbitrary: recs) simp_all

lemma recommendations_shape:
  "\<exists>r5. SmoothSession \<notin> set r5 \<and> HighFriction \<notin> set r5
     \<and> generate_recommendations session fps hs =
         r5 @ (if length fps = 0 then [SmoothSession]
               else if length fps \<ge> 5 then [HighFriction] else [])"
  unfolding generate_recommendations_def Let_def intent_loop_eq
  by (auto split: option.splits)

lemma recommendations_no_friction:
  "generate_recommendations session [] hs =
     map (\<lambda>h. Struggling (str_replace ''user '' '''' (str_lower (hypothesis h))))
       (filter (\<lambda>h. confidence h > 0.7
                  \<and> (contains ''abandon'' (str_lower (hypothesis h))
                     \<or> contains ''unable'' (str_lower (hypothesis h)))) hs)
     @ [SmoothSession]"
  by (simp add: generate_recommendations_def Let_def intent_loop_eq)

text \<open>
  C9 (as amended). In the summary of a run of \<open>generate_insights\<close>: without friction
  patterns, the recommendations are one "struggling" recommendation for each hypothesis of
  confidence above 0.7 whose text in lower case contains "abandon" or "unable", followed
  by the "smooth session" recommendation, and nothing else; with five or more friction
  patterns the "high friction" recommendation is among them; the "smooth session" and the
  "high friction" recommendation never occur together.
\<close>

theorem final_recommendations:
  assumes "generate_insights infer g session = Inr (summary, g')"
  shows "(friction_patterns summary = [] \<longrightarrow>
            recommendations summary =
              map (\<lambda>h. Struggling (str_replace ''user '' '''' (str_lower (hypothesis h))))
                (filter (\<lambda>h. confidence h > 0.7
                           \<and> (contains ''abandon'' (str_lower (hypothesis h))
                              \<or> contains ''unable'' (str_lower (hypothesis h))))
                   (intent_hypotheses summary))
              @ [SmoothSession])
       \<and> (5 \<le> length (friction_patterns summary) \<longrightarrow> HighFriction \<in> set (recommendations summary))
       \<and> \<not> (SmoothSession \<in> set (recommendations summary)
            \<and> HighFriction \<in> set (recommendations summary))"
proof -
  from assms have r: "recommendations summary =
      generate_recommendations session (friction_patterns summary) (intent_hypotheses summary)"
    by (auto simp: generate_insights_def split: sum.splits prod.splits)
  obtain r5 where r5: "SmoothSession \<notin> set r5" "HighFriction \<notin> set r5"
      "recommendations summary =
         r5 @ (if length (friction_patterns summary) = 0 then [SmoothSession]
               else if length (friction_patterns summary) \<ge> 5 then [HighFriction] else [])"
    using recommendations_shape [of session "friction_patterns summary" "intent_hypotheses summary"]
    unfolding r [symmetric] by blast
  have a: "friction_patterns summary = [] \<longrightarrow>
            recommendations summary =
              map (\<lambda>h. Struggling (str_replace ''user '' '''' (str_lower (hypothesis h))))
                (filter (\<lambda>h. confidence h > 0.7
                           \<and> (contains ''abandon'' (str_lower (hypothesis h))
                              \<or> contains ''unable'' (str_lower (hypothesis h))))
                   (intent_hypotheses summary))
              @ [SmoothSession]"
    using r recommendations_no_friction by simp
  have b: "5 \<le> length (friction_patterns summary) \<longrightarrow> HighFriction \<in> set (recommendations summary)"
    using r5(3) by auto
  have c: "\<not> (SmoothSession \<in> set (recommendations summary)
            \<and> HighFriction \<in> set (recommendations summary))"
    using r5 by (auto split: if_splits)
  from a b c show ?thesis by blast
qed

theorem final_recommendations_witness:
  "generate_insights (\<lambda>s ps. Inr [sample_hypothesis ''User unable to pay'' 0.9])
       InsightGenerator_init empty_session
     = Inr (\<lparr> session_id_is = ''s'', timestamp_is = 0,
              intent_hypotheses = [sample_hypothesis ''User unable to pay'' 0.9],
              friction_patterns = [],
              recommendations = [Struggling ''unable to pay'', SmoothSession],
              confidence_score = 63 / 100 \<rparr>,
            InsightGenerator_init)
   \<and> HighFriction \<notin> set [Struggling ''unable to pay'', SmoothSession]
   \<and> map_sum id (\<lambda>(summary, g). (length (friction_patterns summary), recommendations summary))
         (generate_insights (\<lambda>s ps. Inr []) InsightGenerator_init session_five_errors)
       = Inr (5, [AlignExpectations, HighFriction])"
proof -
  have e1: "generate_insights (\<lambda>s ps. Inr [sample_hypothesis ''User unable to pay'' 0.9])
       InsightGenerator_init empty_session
     = Inr (\<lparr> session_id_is = ''s'', timestamp_is = 0,
              intent_hypotheses = [sample_hypothesis ''User unable to pay'' 0.9],
              friction_patterns = [],
              recommendations = [Struggling ''unable to pay'', SmoothSession],
              confidence_score = 63 / 100 \<rparr>,
            InsightGenerator_init)"
    by code_simp
  have e2: "map_sum id (\<lambda>(summary, g). (length (friction_patterns summary), recommendations summary))
         (generate_insights (\<lambda>s ps. Inr []) InsightGenerator_init session_five_errors)
       = Inr (5, [AlignExpectations, HighFriction])"
    by code_simp
  from final_recommendations [OF e1] e1 e2 show ?thesis
    by simp
qed

text \<open>
  C9 as stated fails: without friction patterns, a hypothesis of confidence 0.9 that says
  the user was unable to do something adds a "struggling" recommendation to the "smooth
  session" one.
\<close>

theorem struggling_with_smooth_counterexample:
  "map_sum id (recommendations \<circ> fst)
     (generate_insights (\<lambda>s ps. Inr [sample_hypothesis ''User unable to pay'' 0.9])
        InsightGenerator_init empty_session)
   = Inr [Struggling ''unable to pay'', SmoothSession]"
  by code_simp


section \<open>Intent inference: the event narrative\<close>


end
